theory Spec2Isabelle
  imports
    Complex_Main
    "HOL-Library.Word"
    "HOL-Library.Sublist"
    "HOL-Library.Char_ord"
    "HOL-Library.List_Lexorder"
begin

section \<open>Data model\<close>

text \<open>
  The two scripts, \<^verbatim>\<open>app.py\<close> and \<^verbatim>\<open>appProyectoFinal.py\<close>, read one CSV file into a
  pandas DataFrame, clean it, and (the second one) filter it by four sidebar criteria.

  Text is a list of characters with code points below 256. A cell of the frame that
  \<^verbatim>\<open>pd.read_csv\<close> returns is the text of the field, or \<open>None\<close> where pandas stored NaN
  (an empty field or one of its NA tokens). The numeric type inference of
  \<^verbatim>\<open>read_csv\<close> is folded into the later conversion of the cell, which is a function of the
  field's text. Numbers are the real values of finite doubles: every operation the scripts
  apply to them (comparison, minimum, maximum, \<^verbatim>\<open>int\<close>) is exact on doubles. A timestamp is
  a count of nanoseconds.

  Functions of pandas, of Python's \<^verbatim>\<open>re\<close> and of the CSV tokenizer that the scripts call
  but that are not part of the repository are parameters of the definitions below
  (\<open>to_numeric\<close>, \<open>to_datetime\<close>, \<open>float_of\<close>, \<open>re_compile\<close>, \<open>tokenize\<close>, \<open>reaches\<close>).
  Column names are taken to be pairwise distinct.
\<close>

type_synonym byte = "8 word"
type_synonym cell = "string option"
type_synonym timestamp = int

datatype encoding = Utf8 | Latin1 | Cp1252

datatype csv_error = EmptyDataError | ParserError

datatype error =
    UnicodeDecodeError
  | CsvError csv_error
  | KeyError string
  | ValueError string
  | ReError string

text \<open>The three messages the scripts show before \<^verbatim>\<open>st.stop()\<close>.\<close>

datatype message = ReadErrorMsg | NoCoordsMsg | NoMatchMsg

text \<open>
  A piece of script either runs through with a value, or shows a message and ends the
  current run with \<^verbatim>\<open>st.stop()\<close>, or raises a Python exception.
\<close>

datatype 'a outcome = Returns 'a | Stops message | Raises error

record raw_frame =
  header :: "string list"
  body :: "cell list list"

record specimen =
  Especie :: string
  Latitud :: "real option"
  Longitud :: "real option"
  Lugar :: cell
  Fecha :: "timestamp option"
  Altitud :: "real option"

record dataframe =
  columns :: "string list"
  rows :: "specimen list"

section \<open>Reading the file\<close>

subsection \<open>Python's strict decoders\<close>

definition continuation :: "byte \<Rightarrow> bool" where
  "continuation b = (0x80 \<le> b \<and> b \<le> 0xBF)"

fun utf8_valid :: "byte list \<Rightarrow> bool" where
  "utf8_valid [] = True"
| "utf8_valid (b # bs) =
     (if b \<le> 0x7F then utf8_valid bs
      else if 0xC2 \<le> b \<and> b \<le> 0xDF then
        (case bs of c1 # r \<Rightarrow> continuation c1 \<and> utf8_valid r | _ \<Rightarrow> False)
      else if 0xE0 \<le> b \<and> b \<le> 0xEF then
        (case bs of
           c1 # c2 # r \<Rightarrow>
             (if b = 0xE0 then 0xA0 \<le> c1 \<and> c1 \<le> 0xBF
              else if b = 0xED then 0x80 \<le> c1 \<and> c1 \<le> 0x9F
              else continuation c1)
             \<and> continuation c2 \<and> utf8_valid r
         | _ \<Rightarrow> False)
      else if 0xF0 \<le> b \<and> b \<le> 0xF4 then
        (case bs of
           c1 # c2 # c3 # r \<Rightarrow>
             (if b = 0xF0 then 0x90 \<le> c1 \<and> c1 \<le> 0xBF
              else if b = 0xF4 then 0x80 \<le> c1 \<and> c1 \<le> 0x8F
              else continuation c1)
             \<and> continuation c2 \<and> continuation c3 \<and> utf8_valid r
         | _ \<Rightarrow> False)
      else False)"

definition cp1252_undefined :: "byte list" where
  "cp1252_undefined = [0x81, 0x8D, 0x8F, 0x90, 0x9D]"

definition cp1252_valid :: "byte list \<Rightarrow> bool" where
  "cp1252_valid bs = list_all (\<lambda>b. \<not> List.member cp1252_undefined b) bs"

text \<open>Whether decoding the whole file under the encoding raises no \<^verbatim>\<open>UnicodeDecodeError\<close>.\<close>

fun decodable :: "encoding \<Rightarrow> byte list \<Rightarrow> bool" where
  "decodable Utf8 bs = utf8_valid bs"
| "decodable Latin1 bs = True"
| "decodable Cp1252 bs = cp1252_valid bs"

text \<open>
  \<^verbatim>\<open>pd.read_csv(path, encoding=enc)\<close> on a file with the given bytes. A file without any
  byte has no columns to parse: \<^verbatim>\<open>EmptyDataError\<close>, under every encoding. Otherwise pandas
  tokenizes the bytes and decodes what it keeps, so bytes that the encoding cannot decode
  raise \<^verbatim>\<open>UnicodeDecodeError\<close> only if the reader gets to decode them before anything else
  ends the call. Whether it does is the parameter \<open>reaches\<close>; what the call gives when no
  decode error is raised (a frame, or an error of the tokenizer) is the parameter
  \<open>tokenize\<close>. A decode error needs bytes that do not decode.
\<close>

definition read_csv ::
  "(encoding \<Rightarrow> byte list \<Rightarrow> csv_error + raw_frame) \<Rightarrow> (encoding \<Rightarrow> byte list \<Rightarrow> bool)
   \<Rightarrow> byte list \<Rightarrow> encoding \<Rightarrow> error + raw_frame"
where
  "read_csv tokenize reaches file enc =
     (if file = [] then Inl (CsvError EmptyDataError)
      else if reaches enc file \<and> \<not> decodable enc file then Inl UnicodeDecodeError
      else (case tokenize enc file of Inl e \<Rightarrow> Inl (CsvError e) | Inr f \<Rightarrow> Inr f))"

subsection \<open>The fallback loop of \<^verbatim>\<open>load_data\<close> (both scripts)\<close>

text \<open>
  \<^verbatim>\<open>
  for enc in ["utf-8", "latin1", "cp1252"]:
      try:
          df = pd.read_csv(path, encoding=enc)
          break
      except UnicodeDecodeError:
          continue
  else:
      st.error("Error de lectura de datos (UTF-8/latin1/cp1252).")
      st.stop()
  \<close>
  The first component of the result lists the encodings \<^verbatim>\<open>read_csv\<close> was called with, in
  the order of the calls. Any exception other than \<^verbatim>\<open>UnicodeDecodeError\<close> leaves the loop
  and the function.
\<close>

fun try_encodings ::
  "(encoding \<Rightarrow> error + raw_frame) \<Rightarrow> encoding list \<Rightarrow> encoding list \<times> raw_frame outcome"
where
  "try_encodings rd [] = ([], Stops ReadErrorMsg)"
| "try_encodings rd (enc # encs) =
     (case rd enc of
        Inr df \<Rightarrow> ([enc], Returns df)
      | Inl e \<Rightarrow>
          if e = UnicodeDecodeError
          then (enc # fst (try_encodings rd encs), snd (try_encodings rd encs))
          else ([enc], Raises e))"

definition encodings :: "encoding list" where
  "encodings = [Utf8, Latin1, Cp1252]"

definition read_with_fallback ::
  "(encoding \<Rightarrow> error + raw_frame) \<Rightarrow> encoding list \<times> raw_frame outcome"
where
  "read_with_fallback rd = try_encodings rd encodings"

text \<open>How a call of \<^verbatim>\<open>read_csv\<close> that raised no decode error leaves the loop.\<close>

definition finish :: "error + raw_frame \<Rightarrow> raw_frame outcome" where
  "finish x = (case x of Inr f \<Rightarrow> Returns f | Inl e \<Rightarrow> Raises e)"

section \<open>Cleaning the frame\<close>

text \<open>\<^verbatim>\<open>str.strip()\<close>: the white space of Python among the code points below 256.\<close>

definition isspace :: "char \<Rightarrow> bool" where
  "isspace c = List.member [9, 10, 11, 12, 13, 28, 29, 30, 31, 32, 133, 160] (of_char c :: nat)"

definition strip :: "string \<Rightarrow> string" where
  "strip s = rev (dropWhile isspace (rev (dropWhile isspace s)))"

text \<open>
  \<^verbatim>\<open>df[name]\<close> in one row. A row shorter than the header is padded with NaN by
  \<^verbatim>\<open>read_csv\<close>.
\<close>

definition cell_at :: "string list \<Rightarrow> cell list \<Rightarrow> string \<Rightarrow> cell" where
  "cell_at cols r name = (case map_of (zip cols r) name of Some c \<Rightarrow> c | None \<Rightarrow> None)"

text \<open>
  \<^verbatim>\<open>errors="coerce"\<close>: NaN stays missing, and a text the conversion rejects becomes missing.
\<close>

definition coerce :: "(string \<Rightarrow> 'a option) \<Rightarrow> cell \<Rightarrow> 'a option" where
  "coerce conv c = (case c of None \<Rightarrow> None | Some s \<Rightarrow> conv s)"

text \<open>\<^verbatim>\<open>astype(str)\<close> turns NaN into the text \<^verbatim>\<open>nan\<close> (pandas before version 3).\<close>

definition astype_str :: "cell \<Rightarrow> string" where
  "astype_str c = (case c of None \<Rightarrow> ''nan'' | Some s \<Rightarrow> s)"

subsection \<open>\<^verbatim>\<open>load_data\<close> of \<^verbatim>\<open>appProyectoFinal.py\<close>\<close>

text \<open>
  \<^verbatim>\<open>
  df.columns = df.columns.str.strip()
  df["Latitud"] = pd.to_numeric(df["Latitud"], errors="coerce")
  df["Longitud"] = pd.to_numeric(df["Longitud"], errors="coerce")
  df["Especie"] = df["Especie"].astype(str)
  if "Altitud" in df.columns:
      df["Altitud"] = pd.to_numeric(df["Altitud"], errors="coerce")
  if "Fecha" in df.columns:
      df["Fecha"] = pd.to_datetime(df["Fecha"], errors="coerce")
  df = df.dropna(subset=["Latitud", "Longitud"])
  return df
  \<close>
  The columns the script never reads are passed through and are left out of the model.
\<close>

definition convert_row ::
  "(string \<Rightarrow> real option) \<Rightarrow> (string \<Rightarrow> timestamp option) \<Rightarrow> string list \<Rightarrow> cell list \<Rightarrow> specimen"
where
  "convert_row to_numeric to_datetime cols r =
     \<lparr>Especie = astype_str (cell_at cols r ''Especie''),
      Latitud = coerce to_numeric (cell_at cols r ''Latitud''),
      Longitud = coerce to_numeric (cell_at cols r ''Longitud''),
      Lugar = cell_at cols r ''Lugar'',
      Fecha = (if ''Fecha'' \<in> set cols then coerce to_datetime (cell_at cols r ''Fecha'') else None),
      Altitud = (if ''Altitud'' \<in> set cols then coerce to_numeric (cell_at cols r ''Altitud'') else None)\<rparr>"

definition dropna :: "specimen list \<Rightarrow> specimen list" where
  "dropna rs = filter (\<lambda>r. Latitud r \<noteq> None \<and> Longitud r \<noteq> None) rs"

definition clean ::
  "(string \<Rightarrow> real option) \<Rightarrow> (string \<Rightarrow> timestamp option) \<Rightarrow> raw_frame \<Rightarrow> dataframe outcome"
where
  "clean to_numeric to_datetime raw =
     (let cols = map strip (header raw) in
      if ''Latitud'' \<notin> set cols then Raises (KeyError ''Latitud'')
      else if ''Longitud'' \<notin> set cols then Raises (KeyError ''Longitud'')
      else if ''Especie'' \<notin> set cols then Raises (KeyError ''Especie'')
      else Returns
        \<lparr>columns = cols,
         rows = dropna (map (convert_row to_numeric to_datetime cols) (body raw))\<rparr>)"

definition load_data ::
  "(string \<Rightarrow> real option) \<Rightarrow> (string \<Rightarrow> timestamp option) \<Rightarrow> (encoding \<Rightarrow> error + raw_frame)
   \<Rightarrow> dataframe outcome"
where
  "load_data to_numeric to_datetime rd =
     (case snd (read_with_fallback rd) of
        Returns raw \<Rightarrow> clean to_numeric to_datetime raw
      | Stops m \<Rightarrow> Stops m
      | Raises e \<Rightarrow> Raises e)"

subsection \<open>\<^verbatim>\<open>load_data\<close> of \<^verbatim>\<open>app.py\<close>\<close>

text \<open>
  \<^verbatim>\<open>
  df = df.dropna(subset=["Latitud", "Longitud"])
  df["Latitud"] = df["Latitud"].astype(float)
  df["Longitud"] = df["Longitud"].astype(float)
  df["Especie"] = df["Especie"].astype(str)
  return df
  \<close>
  \<^verbatim>\<open>astype(float)\<close> keeps NaN and raises \<^verbatim>\<open>ValueError\<close> at the first text that is not a
  number. The header is not stripped here.
\<close>

record app_row =
  app_Especie :: string
  app_Latitud :: "real option"
  app_Longitud :: "real option"

fun astype_float :: "(string \<Rightarrow> real option) \<Rightarrow> cell list \<Rightarrow> error + real option list" where
  "astype_float float_of [] = Inr []"
| "astype_float float_of (None # cs) =
     (case astype_float float_of cs of Inl e \<Rightarrow> Inl e | Inr xs \<Rightarrow> Inr (None # xs))"
| "astype_float float_of (Some s # cs) =
     (case float_of s of
        None \<Rightarrow> Inl (ValueError s)
      | Some x \<Rightarrow>
          (case astype_float float_of cs of Inl e \<Rightarrow> Inl e | Inr xs \<Rightarrow> Inr (Some x # xs)))"

definition app_clean :: "(string \<Rightarrow> real option) \<Rightarrow> raw_frame \<Rightarrow> app_row list outcome" where
  "app_clean float_of raw =
     (let cols = header raw in
      if ''Latitud'' \<notin> set cols then Raises (KeyError ''Latitud'')
      else if ''Longitud'' \<notin> set cols then Raises (KeyError ''Longitud'')
      else
        let kept = filter (\<lambda>r. cell_at cols r ''Latitud'' \<noteq> None
                              \<and> cell_at cols r ''Longitud'' \<noteq> None) (body raw)
        in
          case astype_float float_of (map (\<lambda>r. cell_at cols r ''Latitud'') kept) of
            Inl e \<Rightarrow> Raises e
          | Inr lats \<Rightarrow>
              (case astype_float float_of (map (\<lambda>r. cell_at cols r ''Longitud'') kept) of
                 Inl e \<Rightarrow> Raises e
               | Inr lons \<Rightarrow>
                   if ''Especie'' \<notin> set cols then Raises (KeyError ''Especie'')
                   else Returns
                     (map (\<lambda>(r, lat, lon).
                             \<lparr>app_Especie = astype_str (cell_at cols r ''Especie''),
                              app_Latitud = lat, app_Longitud = lon\<rparr>)
                        (zip kept (zip lats lons)))))"

definition app_load_data ::
  "(string \<Rightarrow> real option) \<Rightarrow> (encoding \<Rightarrow> error + raw_frame) \<Rightarrow> app_row list outcome"
where
  "app_load_data float_of rd =
     (case snd (read_with_fallback rd) of
        Returns raw \<Rightarrow> app_clean float_of raw
      | Stops m \<Rightarrow> Stops m
      | Raises e \<Rightarrow> Raises e)"

text \<open>
  The count the specification compares the loaded dataset with: the rows of the frame as
  read whose latitude and longitude are both present and both accepted by the numeric
  conversion.
\<close>

definition present_numeric :: "(string \<Rightarrow> real option) \<Rightarrow> cell \<Rightarrow> bool" where
  "present_numeric to_numeric c = (case c of None \<Rightarrow> False | Some s \<Rightarrow> to_numeric s \<noteq> None)"

definition rows_with_coordinates :: "(string \<Rightarrow> real option) \<Rightarrow> raw_frame \<Rightarrow> cell list list" where
  "rows_with_coordinates to_numeric raw =
     filter (\<lambda>r. present_numeric to_numeric (cell_at (map strip (header raw)) r ''Latitud'')
               \<and> present_numeric to_numeric (cell_at (map strip (header raw)) r ''Longitud''))
       (body raw)"

section \<open>The sidebar of \<^verbatim>\<open>appProyectoFinal.py\<close>\<close>

subsection \<open>Feature flags and bounds\<close>

definition notna :: "'a option list \<Rightarrow> 'a list" where
  "notna xs = List.map_filter (\<lambda>x. x) xs"

text \<open>\<^verbatim>\<open>Series.min()\<close> and \<^verbatim>\<open>Series.max()\<close> skip missing values.\<close>

definition series_min :: "'a::linorder option list \<Rightarrow> 'a option" where
  "series_min xs = (case notna xs of [] \<Rightarrow> None | v # vs \<Rightarrow> Some (fold min vs v))"

definition series_max :: "'a::linorder option list \<Rightarrow> 'a option" where
  "series_max xs = (case notna xs of [] \<Rightarrow> None | v # vs \<Rightarrow> Some (fold max vs v))"

text \<open>\<^verbatim>\<open>int(x)\<close> on a float truncates towards zero.\<close>

definition py_int :: "real \<Rightarrow> int" where
  "py_int x = (if 0 \<le> x then \<lfloor>x\<rfloor> else \<lceil>x\<rceil>)"

text \<open>\<^verbatim>\<open>Timestamp.to_pydatetime()\<close> drops the nanoseconds below a microsecond.\<close>

definition to_pydatetime :: "timestamp \<Rightarrow> timestamp" where
  "to_pydatetime t = (t div 1000) * 1000"

definition species_options :: "dataframe \<Rightarrow> string list" where
  "species_options df = sort (remdups (map Especie (rows df)))"

definition has_fecha :: "dataframe \<Rightarrow> bool" where
  "has_fecha df = (''Fecha'' \<in> set (columns df) \<and> list_ex (\<lambda>r. Fecha r \<noteq> None) (rows df))"

definition has_alt :: "dataframe \<Rightarrow> bool" where
  "has_alt df = (''Altitud'' \<in> set (columns df) \<and> list_ex (\<lambda>r. Altitud r \<noteq> None) (rows df))"

definition global_min_dt :: "dataframe \<Rightarrow> timestamp option" where
  "global_min_dt df = map_option to_pydatetime (series_min (map Fecha (rows df)))"

definition global_max_dt :: "dataframe \<Rightarrow> timestamp option" where
  "global_max_dt df = map_option to_pydatetime (series_max (map Fecha (rows df)))"

definition global_alt_min :: "dataframe \<Rightarrow> int option" where
  "global_alt_min df = map_option py_int (series_min (map Altitud (rows df)))"

definition global_alt_max :: "dataframe \<Rightarrow> int option" where
  "global_alt_max df = map_option py_int (series_max (map Altitud (rows df)))"

subsection \<open>Session state, defaults and reset\<close>

text \<open>A key of \<^verbatim>\<open>st.session_state\<close> that is not set is \<open>None\<close>.\<close>

record session_state =
  species_filter :: "string list option"
  lugar_filter :: "string option"
  fecha_filter :: "(timestamp \<times> timestamp) option"
  alt_filter :: "(int \<times> int) option"

definition pair_of :: "'a option \<Rightarrow> 'a option \<Rightarrow> ('a \<times> 'a) option" where
  "pair_of a b = (case a of None \<Rightarrow> None | Some x \<Rightarrow> (case b of None \<Rightarrow> None | Some y \<Rightarrow> Some (x, y)))"

text \<open>Lines 74 to 81: a key that is not in the session yet gets its default.\<close>

definition init_session :: "dataframe \<Rightarrow> session_state \<Rightarrow> session_state" where
  "init_session df st =
     \<lparr>species_filter =
        (if species_filter st = None then Some (species_options df) else species_filter st),
      lugar_filter = (if lugar_filter st = None then Some [] else lugar_filter st),
      fecha_filter =
        (if has_fecha df \<and> fecha_filter st = None
         then pair_of (global_min_dt df) (global_max_dt df) else fecha_filter st),
      alt_filter =
        (if has_alt df \<and> alt_filter st = None
         then pair_of (global_alt_min df) (global_alt_max df) else alt_filter st)\<rparr>"

definition reset_filters :: "dataframe \<Rightarrow> session_state \<Rightarrow> session_state" where
  "reset_filters df st =
     \<lparr>species_filter = Some (species_options df),
      lugar_filter = Some [],
      fecha_filter =
        (if has_fecha df then pair_of (global_min_dt df) (global_max_dt df) else fecha_filter st),
      alt_filter =
        (if has_alt df then pair_of (global_alt_min df) (global_alt_max df) else alt_filter st)\<rparr>"

definition fresh_session :: session_state where
  "fresh_session = \<lparr>species_filter = None, lugar_filter = None, fecha_filter = None, alt_filter = None\<rparr>"

subsection \<open>The criteria\<close>

text \<open>
  The values the widgets hand to the filters (lines 94 to 125), named as the script names
  them. Without the date or the altitude feature the script sets both endpoints to
  \<^verbatim>\<open>None\<close>. The widgets themselves belong to Streamlit and are not modelled: the filters
  below are functions of the criteria they are given.
\<close>

record criteria =
  selected_species :: "string list"
  lugar_text :: string
  start_dt :: "timestamp option"
  end_dt :: "timestamp option"
  alt_min_sel :: "int option"
  alt_max_sel :: "int option"

section \<open>The filters of \<^verbatim>\<open>appProyectoFinal.py\<close>\<close>

subsection \<open>\<^verbatim>\<open>str.contains(pat, case=False, na=False)\<close>\<close>

text \<open>
  The pattern is a regular expression (\<^verbatim>\<open>regex=True\<close> is the default of pandas) compiled
  with \<^verbatim>\<open>re.IGNORECASE\<close>, and a text matches when \<^verbatim>\<open>re.search\<close> finds the pattern
  somewhere in it. A pattern whose only special character is the dot always compiles: a
  dot stands for any character but the line feed, every other character for itself,
  letters compared without case. A pattern with any other special character of \<^verbatim>\<open>re\<close> is
  left to the parameter \<open>re_compile\<close>, which gives the search function of the compiled
  pattern, or \<open>None\<close> where \<^verbatim>\<open>re.compile\<close> raises.
\<close>

definition lower_char :: "char \<Rightarrow> char" where
  "lower_char c =
     (let n = (of_char c :: nat)
      in if (65 \<le> n \<and> n \<le> 90) \<or> (192 \<le> n \<and> n \<le> 222 \<and> n \<noteq> 215) then char_of (n + 32) else c)"

definition lower :: "string \<Rightarrow> string" where
  "lower s = map lower_char s"

definition regex_special :: string where
  "regex_special = ''^$*+?{}[]|()'' @ [CHR 0x5C]"

definition simple :: "string \<Rightarrow> bool" where
  "simple pat = list_all (\<lambda>c. \<not> List.member regex_special c) pat"

fun match_here :: "string \<Rightarrow> string \<Rightarrow> bool" where
  "match_here [] t = True"
| "match_here (p # ps) [] = False"
| "match_here (p # ps) (c # cs) =
     ((if p = CHR ''.'' then c \<noteq> CHR 0x0A else lower_char p = lower_char c) \<and> match_here ps cs)"

fun re_search :: "string \<Rightarrow> string \<Rightarrow> bool" where
  "re_search pat [] = match_here pat []"
| "re_search pat (c # cs) = (match_here pat (c # cs) \<or> re_search pat cs)"

definition str_contains ::
  "(string \<Rightarrow> (string \<Rightarrow> bool) option) \<Rightarrow> string \<Rightarrow> error + (string \<Rightarrow> bool)"
where
  "str_contains re_compile pat =
     (if simple pat then Inr (re_search pat)
      else (case re_compile pat of None \<Rightarrow> Inl (ReError pat) | Some m \<Rightarrow> Inr m))"

subsection \<open>The four steps (lines 129 to 149)\<close>

text \<open>
  \<^verbatim>\<open>
  filtered_df = df.copy()
  if selected_species:
      filtered_df = filtered_df[filtered_df["Especie"].isin(selected_species)]
  if lugar_text:
      filtered_df = filtered_df[
          filtered_df["Lugar"].astype(str).str.contains(lugar_text, case=False, na=False)]
  if has_fecha and start_dt and end_dt:
      start_ts = pd.to_datetime(start_dt)
      end_ts = pd.to_datetime(end_dt)
      filtered_df = filtered_df[
          filtered_df["Fecha"].between(start_ts, end_ts, inclusive="both")]
  if has_alt and alt_min_sel is not None and alt_max_sel is not None:
      filtered_df = filtered_df[
          filtered_df["Altitud"].between(alt_min_sel, alt_max_sel, inclusive="both")]
  \<close>
  A datetime is always true in Python, so \<^verbatim>\<open>start_dt and end_dt\<close> asks that neither is
  \<^verbatim>\<open>None\<close>. \<^verbatim>\<open>between\<close> is false on a missing value.
\<close>

definition between :: "'a::linorder \<Rightarrow> 'a \<Rightarrow> 'a option \<Rightarrow> bool" where
  "between lo hi v = (case v of None \<Rightarrow> False | Some x \<Rightarrow> lo \<le> x \<and> x \<le> hi)"

definition select_rows :: "(specimen \<Rightarrow> bool) \<Rightarrow> dataframe \<Rightarrow> dataframe" where
  "select_rows p fdf = fdf\<lparr>rows := filter p (rows fdf)\<rparr>"

definition species_step :: "string list \<Rightarrow> dataframe \<Rightarrow> dataframe" where
  "species_step sel fdf =
     (if sel \<noteq> [] then select_rows (\<lambda>r. Especie r \<in> set sel) fdf else fdf)"

definition lugar_step ::
  "(string \<Rightarrow> (string \<Rightarrow> bool) option) \<Rightarrow> string \<Rightarrow> dataframe \<Rightarrow> error + dataframe"
where
  "lugar_step re_compile txt fdf =
     (if txt \<noteq> [] then
        (if ''Lugar'' \<notin> set (columns fdf) then Inl (KeyError ''Lugar'')
         else (case str_contains re_compile txt of
                 Inl e \<Rightarrow> Inl e
               | Inr m \<Rightarrow> Inr (select_rows (\<lambda>r. m (astype_str (Lugar r))) fdf)))
      else Inr fdf)"

definition fecha_step :: "bool \<Rightarrow> timestamp option \<Rightarrow> timestamp option \<Rightarrow> dataframe \<Rightarrow> dataframe" where
  "fecha_step hf sd ed fdf =
     (case sd of
        None \<Rightarrow> fdf
      | Some start_ts \<Rightarrow>
          (case ed of
             None \<Rightarrow> fdf
           | Some end_ts \<Rightarrow>
               if hf then select_rows (\<lambda>r. between start_ts end_ts (Fecha r)) fdf else fdf))"

definition alt_step :: "bool \<Rightarrow> int option \<Rightarrow> int option \<Rightarrow> dataframe \<Rightarrow> dataframe" where
  "alt_step ha lo hi fdf =
     (case lo of
        None \<Rightarrow> fdf
      | Some a \<Rightarrow>
          (case hi of
             None \<Rightarrow> fdf
           | Some b \<Rightarrow>
               if ha then select_rows (\<lambda>r. between (real_of_int a) (real_of_int b) (Altitud r)) fdf
               else fdf))"

text \<open>The two variables of the script, \<^verbatim>\<open>df\<close> and \<^verbatim>\<open>filtered_df\<close>.\<close>

record script_vars =
  v_df :: dataframe
  v_filtered_df :: dataframe

text \<open>Lines 134 to 149: the location, date and altitude statements.\<close>

definition remaining_steps ::
  "(string \<Rightarrow> (string \<Rightarrow> bool) option) \<Rightarrow> bool \<Rightarrow> bool \<Rightarrow> criteria \<Rightarrow> script_vars \<Rightarrow> error + script_vars"
where
  "remaining_steps re_compile hf ha c vs =
     (case lugar_step re_compile (lugar_text c) (v_filtered_df vs) of
        Inl e \<Rightarrow> Inl e
      | Inr f \<Rightarrow>
          (let vs = vs\<lparr>v_filtered_df := f\<rparr>;
               vs = vs\<lparr>v_filtered_df := fecha_step hf (start_dt c) (end_dt c) (v_filtered_df vs)\<rparr>;
               vs = vs\<lparr>v_filtered_df := alt_step ha (alt_min_sel c) (alt_max_sel c) (v_filtered_df vs)\<rparr>
           in Inr vs))"

text \<open>Lines 129 to 149, from \<^verbatim>\<open>filtered_df = df.copy()\<close> on.\<close>

definition filter_block ::
  "(string \<Rightarrow> (string \<Rightarrow> bool) option) \<Rightarrow> bool \<Rightarrow> bool \<Rightarrow> criteria \<Rightarrow> dataframe \<Rightarrow> error + script_vars"
where
  "filter_block re_compile hf ha c df =
     (let vs = \<lparr>v_df = df, v_filtered_df = df\<rparr>;
          vs = vs\<lparr>v_filtered_df := species_step (selected_species c) (v_filtered_df vs)\<rparr>
      in remaining_steps re_compile hf ha c vs)"

text \<open>
  The filtered view of a dataset under given criteria, with the flags the script computes
  from the dataset.
\<close>

definition apply_filters ::
  "(string \<Rightarrow> (string \<Rightarrow> bool) option) \<Rightarrow> dataframe \<Rightarrow> criteria \<Rightarrow> error + dataframe"
where
  "apply_filters re_compile df c =
     (case filter_block re_compile (has_fecha df) (has_alt df) c df of
        Inl e \<Rightarrow> Inl e
      | Inr vs \<Rightarrow> Inr (v_filtered_df vs))"

subsection \<open>The guard on the filtered view (lines 151 to 153)\<close>

text \<open>
  \<^verbatim>\<open>
  if filtered_df.empty:
      st.warning("No hay registros que coincidan con los filtros seleccionados.")
      st.stop()
  \<close>
  The result of the pipeline pairs the value of \<^verbatim>\<open>df\<close> when it ends with its outcome: the
  filtered view handed on to the tabs, a stop with its message, or an exception.
\<close>

definition empty_guard :: "dataframe \<Rightarrow> dataframe outcome" where
  "empty_guard fdf = (if rows fdf = [] then Stops NoMatchMsg else Returns fdf)"

definition filter_pipeline ::
  "(string \<Rightarrow> (string \<Rightarrow> bool) option) \<Rightarrow> bool \<Rightarrow> bool \<Rightarrow> criteria \<Rightarrow> dataframe
   \<Rightarrow> dataframe \<times> dataframe outcome"
where
  "filter_pipeline re_compile hf ha c df =
     (case filter_block re_compile hf ha c df of
        Inl e \<Rightarrow> (df, Raises e)
      | Inr vs \<Rightarrow> (v_df vs, empty_guard (v_filtered_df vs)))"

section \<open>Example data\<close>

text \<open>
  Conversions to run the definitions on: plain decimal numerals (an optional minus sign,
  digits, an optional point and digits), and the two dates of the example with their
  timestamps. Both reject every other text.
\<close>

definition digit_of :: "char \<Rightarrow> nat option" where
  "digit_of c = (let n = (of_char c :: nat) in if 48 \<le> n \<and> n \<le> 57 then Some (n - 48) else None)"

fun digits_of :: "string \<Rightarrow> nat \<Rightarrow> nat option" where
  "digits_of [] acc = Some acc"
| "digits_of (c # cs) acc =
     (case digit_of c of None \<Rightarrow> None | Some d \<Rightarrow> digits_of cs (10 * acc + d))"

definition plain_decimal :: "string \<Rightarrow> real option" where
  "plain_decimal s =
     (let neg = (take 1 s = ''-'');
          u = (if neg then drop 1 s else s);
          ip = takeWhile (\<lambda>c. c \<noteq> CHR ''.'') u;
          fp = drop 1 (dropWhile (\<lambda>c. c \<noteq> CHR ''.'') u)
      in if ip = [] \<and> fp = [] then None
         else (case digits_of ip 0 of
                 None \<Rightarrow> None
               | Some i \<Rightarrow>
                   (case digits_of fp 0 of
                      None \<Rightarrow> None
                    | Some f \<Rightarrow>
                        Some ((if neg then - 1 else 1) * (real i + real f / 10 ^ length fp)))))"

definition two_dates :: "string \<Rightarrow> timestamp option" where
  "two_dates = map_of [(''2020-01-01'', 1577836800000000000), (''2021-01-01'', 1609459200000000000)]"

text \<open>A frame as read, with padded column names, a missing latitude and a latitude that is no number.\<close>

definition field_sheet :: raw_frame where
  "field_sheet =
     \<lparr>header = [''Especie'', '' Latitud'', ''Longitud '', ''Fecha'', ''Altitud''],
      body =
        [[Some ''Sylvilagus X'', Some ''10.3'', Some ''-84.4'', Some ''2020-01-01'', Some ''1234.5''],
         [Some ''Sylvilagus Y'', None, Some ''-84.1'', Some ''2021-01-01'', Some ''80''],
         [Some ''Sylvilagus Y'', Some ''abc'', Some ''-84.2'', Some ''ayer'', None],
         [None, Some ''9.9'', Some ''-83.9'', Some ''ayer'', Some ''alto'']]\<rparr>"

text \<open>The same kind of frame for \<^verbatim>\<open>app.py\<close>, which does not strip the column names.\<close>

definition plain_sheet :: raw_frame where
  "plain_sheet =
     \<lparr>header = [''Especie'', ''Latitud'', ''Longitud''],
      body =
        [[Some ''Sylvilagus X'', Some ''10.3'', Some ''-84.4''],
         [Some ''Sylvilagus Y'', Some ''abc'', Some ''-84.2'']]\<rparr>"

text \<open>A loaded dataset of four specimens.\<close>

definition rabbit :: "string \<Rightarrow> cell \<Rightarrow> timestamp option \<Rightarrow> real option \<Rightarrow> specimen" where
  "rabbit sp place date alt =
     \<lparr>Especie = sp, Latitud = Some 10.3, Longitud = Some (- 84.4),
      Lugar = place, Fecha = date, Altitud = alt\<rparr>"

definition rabbit_a :: specimen where
  "rabbit_a = rabbit ''Sylvilagus X'' (Some ''san carlos, alajuela'') (Some 1577836800000000000) (Some 1234.5)"

definition rabbit_b :: specimen where
  "rabbit_b = rabbit ''Sylvilagus X'' None None (Some 80)"

definition rabbit_c :: specimen where
  "rabbit_c = rabbit ''Sylvilagus Y'' (Some ''Heredia'') (Some 1609459200000000000) None"

definition rabbit_d :: specimen where
  "rabbit_d = rabbit ''Sylvilagus Y'' (Some ''San Carlos'') (Some 1590969600000000000) (Some 500)"

definition four_rabbits :: dataframe where
  "four_rabbits =
     \<lparr>columns = [''Especie'', ''Latitud'', ''Longitud'', ''Lugar'', ''Fecha'', ''Altitud''],
      rows = [rabbit_a, rabbit_b, rabbit_c, rabbit_d]\<rparr>"

text \<open>The same specimens in a frame without the optional columns.\<close>

definition bare_rabbits :: dataframe where
  "bare_rabbits = four_rabbits\<lparr>columns := [''Especie'', ''Latitud'', ''Longitud'']\<rparr>"

definition no_criteria :: criteria where
  "no_criteria =
     \<lparr>selected_species = [], lugar_text = [], start_dt = None, end_dt = None,
      alt_min_sel = None, alt_max_sel = None\<rparr>"

definition x_criteria :: criteria where
  "x_criteria =
     \<lparr>selected_species = [''Sylvilagus X''], lugar_text = [],
      start_dt = Some 1577836800000000000, end_dt = Some 1609459200000000000,
      alt_min_sel = Some 0, alt_max_sel = Some 2000\<rparr>"

text \<open>
  The criteria that carry the defaults of the four specimens: every species, no location
  text, the first and the last date, the truncated lowest and highest altitude.
\<close>

definition default_criteria :: criteria where
  "default_criteria =
     \<lparr>selected_species = [''Sylvilagus X'', ''Sylvilagus Y''], lugar_text = [],
      start_dt = Some 1577836800000000000, end_dt = Some 1609459200000000000,
      alt_min_sel = Some 80, alt_max_sel = Some 1234\<rparr>"

text \<open>The defaults narrowed to one species and one place, which no specimen has together.\<close>

definition heredia_criteria :: criteria where
  "heredia_criteria = default_criteria\<lparr>selected_species := [''Sylvilagus X''], lugar_text := ''Heredia''\<rparr>"

text \<open>What the final script loads from the first frame.\<close>

definition loaded_sheet :: dataframe where
  "loaded_sheet =
     \<lparr>columns = [''Especie'', ''Latitud'', ''Longitud'', ''Fecha'', ''Altitud''],
      rows =
        [\<lparr>Especie = ''Sylvilagus X'', Latitud = Some 10.3, Longitud = Some (- 84.4), Lugar = None,
          Fecha = Some 1577836800000000000, Altitud = Some 1234.5\<rparr>,
         \<lparr>Especie = ''nan'', Latitud = Some 9.9, Longitud = Some (- 83.9), Lugar = None,
          Fecha = None, Altitud = None\<rparr>]\<rparr>"

section \<open>Properties of the steps\<close>

lemma rows_select_rows: "rows (select_rows p fdf) = filter p (rows fdf)"
  by (simp add: select_rows_def)

lemma columns_select_rows: "columns (select_rows p fdf) = columns fdf"
  by (simp add: select_rows_def)

lemma select_rows_all: "select_rows (\<lambda>r. True) fdf = fdf"
  by (simp add: select_rows_def)

lemma select_rows_twice: "select_rows q (select_rows p fdf) = select_rows (\<lambda>r. p r \<and> q r) fdf"
  by (simp add: select_rows_def)

lemma length_filter_mono:
  "(\<And>x. x \<in> set xs \<Longrightarrow> p x \<Longrightarrow> q x) \<Longrightarrow> length (filter p xs) \<le> length (filter q xs)"
proof (induction xs)
  case Nil
  then show ?case by simp
next
  case (Cons x xs)
  then show ?case by (cases "p x") (auto simp: le_SucI)
qed

text \<open>Each step is a selection of rows by a test on the row.\<close>

lemma species_step_select:
  "species_step sel fdf = select_rows (\<lambda>r. sel = [] \<or> Especie r \<in> set sel) fdf"
  by (cases "sel = []") (simp_all add: species_step_def select_rows_def)

lemma fecha_step_select:
  "fecha_step hf sd ed fdf =
     select_rows (\<lambda>r. \<not> hf \<or> sd = None \<or> ed = None \<or> between (the sd) (the ed) (Fecha r)) fdf"
  by (cases sd; cases ed; cases hf) (simp_all add: fecha_step_def select_rows_def)

lemma alt_step_select:
  "alt_step ha lo hi fdf =
     select_rows (\<lambda>r. \<not> ha \<or> lo = None \<or> hi = None
        \<or> between (real_of_int (the lo)) (real_of_int (the hi)) (Altitud r)) fdf"
  by (cases lo; cases hi; cases ha) (simp_all add: alt_step_def select_rows_def)

lemma lugar_step_select:
  assumes "lugar_step re_compile txt fdf = Inr f"
  shows "\<exists>p. \<forall>g. columns g = columns fdf \<longrightarrow> lugar_step re_compile txt g = Inr (select_rows p g)"
proof (cases "txt = []")
  case True
  then show ?thesis
    by (intro exI [of _ "\<lambda>r. True"]) (simp add: lugar_step_def select_rows_all)
next
  case False
  with assms obtain m where "str_contains re_compile txt = Inr m" and "''Lugar'' \<in> set (columns fdf)"
    by (auto simp: lugar_step_def split: if_splits sum.splits)
  with False show ?thesis
    by (intro exI [of _ "\<lambda>r. m (astype_str (Lugar r))"]) (simp add: lugar_step_def)
qed

lemma apply_filters_eq:
  "apply_filters re_compile df c =
     (case lugar_step re_compile (lugar_text c) (species_step (selected_species c) df) of
        Inl e \<Rightarrow> Inl e
      | Inr f \<Rightarrow> Inr (alt_step (has_alt df) (alt_min_sel c) (alt_max_sel c)
                        (fecha_step (has_fecha df) (start_dt c) (end_dt c) f)))"
  by (simp add: apply_filters_def filter_block_def remaining_steps_def Let_def split: sum.splits)

text \<open>
  Where the view exists, it is one selection from the dataset by the conjunction of the four
  tests, and so it is for every other choice of species and ranges.
\<close>

lemma apply_filters_select:
  assumes "apply_filters re_compile df c = Inr v"
  shows "\<exists>p. \<forall>sel sd ed lo hi.
           apply_filters re_compile df (c\<lparr>selected_species := sel, start_dt := sd, end_dt := ed,
                                         alt_min_sel := lo, alt_max_sel := hi\<rparr>)
           = Inr (select_rows (\<lambda>r. (sel = [] \<or> Especie r \<in> set sel) \<and> p r
                    \<and> (\<not> has_fecha df \<or> sd = None \<or> ed = None \<or> between (the sd) (the ed) (Fecha r))
                    \<and> (\<not> has_alt df \<or> lo = None \<or> hi = None
                         \<or> between (real_of_int (the lo)) (real_of_int (the hi)) (Altitud r))) df)"
proof -
  from assms obtain f where
    "lugar_step re_compile (lugar_text c) (species_step (selected_species c) df) = Inr f"
    by (auto simp: apply_filters_eq split: sum.splits)
  from lugar_step_select [OF this] obtain p where
    p: "\<And>g. columns g = columns (species_step (selected_species c) df)
          \<Longrightarrow> lugar_step re_compile (lugar_text c) g = Inr (select_rows p g)"
    by blast
  have "\<And>sel. lugar_step re_compile (lugar_text c) (species_step sel df)
          = Inr (select_rows p (species_step sel df))"
    by (rule p) (simp add: species_step_select columns_select_rows)
  then show ?thesis
    by (intro exI [of _ p])
       (simp add: apply_filters_eq species_step_select fecha_step_select alt_step_select
          select_rows_twice conj_assoc)
qed

lemma lugar_step_empty: "lugar_step re_compile [] fdf = Inr fdf"
  by (simp add: lugar_step_def)

text \<open>
  A criterion without any special character, the dot included, is searched as a plain
  text, letters compared without case.
\<close>

lemma match_here_literal:
  "CHR ''.'' \<notin> set pat \<Longrightarrow> match_here pat t = prefix (lower pat) (lower t)"
  by (induction pat t rule: match_here.induct) (auto simp: lower_def)

lemma re_search_literal:
  "CHR ''.'' \<notin> set pat \<Longrightarrow> re_search pat t = sublist (lower pat) (lower t)"
proof (induction t)
  case Nil
  then show ?case by (cases pat) (simp_all add: lower_def)
next
  case (Cons c cs)
  then show ?case
    by (cases pat) (auto simp: match_here_literal lower_def sublist_Cons_right)
qed

lemma lugar_step_plain_text:
  assumes "txt \<noteq> []" and "simple txt" and "CHR ''.'' \<notin> set txt" and "''Lugar'' \<in> set (columns fdf)"
  shows "lugar_step re_compile txt fdf
           = Inr (select_rows (\<lambda>r. sublist (lower txt) (lower (astype_str (Lugar r)))) fdf)"
  using assms by (simp add: lugar_step_def str_contains_def re_search_literal)

text \<open>
  The location step on the four specimens: a criterion in another case than the text, a
  single dot, a pattern that does not compile, and a frame without the column.
\<close>

lemma location_ignores_case:
  "lugar_step re_compile ''San Carlos'' four_rabbits = Inr (four_rabbits\<lparr>rows := [rabbit_a, rabbit_d]\<rparr>)"
  by code_simp

lemma dot_criterion_keeps_every_record:
  "lugar_step re_compile ''.'' four_rabbits = Inr four_rabbits"
  by code_simp

lemma unbalanced_parenthesis_raises:
  "lugar_step (\<lambda>pat. None) ''San (Carlos'' four_rabbits = Inl (ReError ''San (Carlos'')"
  by code_simp

lemma missing_column_raises:
  "lugar_step re_compile ''San'' bare_rabbits = Inl (KeyError ''Lugar'')"
  by code_simp

section \<open>Properties of the loader\<close>

lemma read_with_fallback_cases:
  "read_with_fallback rd =
     (if rd Utf8 \<noteq> Inl UnicodeDecodeError then ([Utf8], finish (rd Utf8))
      else if rd Latin1 \<noteq> Inl UnicodeDecodeError then ([Utf8, Latin1], finish (rd Latin1))
      else if rd Cp1252 \<noteq> Inl UnicodeDecodeError then ([Utf8, Latin1, Cp1252], finish (rd Cp1252))
      else ([Utf8, Latin1, Cp1252], Stops ReadErrorMsg))"
  by (auto simp: read_with_fallback_def encodings_def finish_def split: sum.splits)

lemma finish_no_stop: "finish x \<noteq> Stops m"
  by (simp add: finish_def split: sum.splits)

lemma clean_no_stop: "clean to_numeric to_datetime raw \<noteq> Stops m"
  by (simp add: clean_def Let_def)

lemma app_clean_no_stop: "app_clean float_of raw \<noteq> Stops m"
  by (simp add: app_clean_def Let_def split: sum.splits)

lemma load_data_stops:
  "load_data to_numeric to_datetime rd = Stops m \<longleftrightarrow> snd (read_with_fallback rd) = Stops m"
  by (simp add: load_data_def clean_no_stop split: outcome.splits)

lemma app_load_data_stops:
  "app_load_data float_of rd = Stops m \<longleftrightarrow> snd (read_with_fallback rd) = Stops m"
  by (simp add: app_load_data_def app_clean_no_stop split: outcome.splits)

lemma read_csv_latin1: "read_csv tokenize reaches file Latin1 \<noteq> Inl UnicodeDecodeError"
  by (simp add: read_csv_def split: sum.splits)

lemma read_csv_utf8_valid:
  "utf8_valid file \<Longrightarrow> read_csv tokenize reaches file Utf8 \<noteq> Inl UnicodeDecodeError"
  by (simp add: read_csv_def split: sum.splits)

lemma coerce_present: "(\<exists>y. coerce to_numeric c = Some y) \<longleftrightarrow> present_numeric to_numeric c"
  by (simp add: coerce_def present_numeric_def split: option.splits)

lemma rows_clean:
  assumes "clean to_numeric to_datetime raw = Returns df"
  shows "rows df = dropna (map (convert_row to_numeric to_datetime (map strip (header raw))) (body raw))"
    and "columns df = map strip (header raw)"
  using assms by (auto simp: clean_def Let_def split: if_splits)

lemma length_dropna_convert:
  "length (dropna (map (convert_row to_numeric to_datetime (map strip (header raw))) (body raw)))
     = length (rows_with_coordinates to_numeric raw)"
  by (simp add: dropna_def rows_with_coordinates_def filter_map convert_row_def coerce_present o_def)

text \<open>
  The final script returns a dataset whenever the three columns it needs are there,
  whatever the cells hold.
\<close>

lemma final_script_coerces_cells:
  "(\<exists>df. clean to_numeric to_datetime raw = Returns df)
     = ({''Latitud'', ''Longitud'', ''Especie''} \<subseteq> set (map strip (header raw)))"
  by (auto simp: clean_def Let_def)

text \<open>
  Two small files, the letter a followed by an e with acute accent, in Latin-1 and in
  UTF-8, read by a reader that decodes every byte; and the first of them read by a reader
  whose tokenizer gives up before the accented letter is decoded.
\<close>

lemma latin1_file_example:
  "read_with_fallback (read_csv (\<lambda>enc bs. Inr plain_sheet) (\<lambda>enc bs. True) [0x61, 0xE9])
     = ([Utf8, Latin1], Returns plain_sheet)"
  by (simp add: read_with_fallback_def encodings_def read_csv_def)

lemma utf8_file_example:
  "read_with_fallback (read_csv (\<lambda>enc bs. Inr plain_sheet) (\<lambda>enc bs. True) [0x61, 0xC3, 0xA9])
     = ([Utf8], Returns plain_sheet)"
  by (simp add: read_with_fallback_def encodings_def read_csv_def continuation_def)

lemma parser_error_before_decoding_example:
  "read_with_fallback (read_csv (\<lambda>enc bs. Inl ParserError) (\<lambda>enc bs. False) [0x61, 0xE9])
     = ([Utf8], Raises (CsvError ParserError))"
  by (simp add: read_with_fallback_def encodings_def read_csv_def)

section \<open>Properties of the bounds\<close>

lemma set_notna: "x \<in> set (notna xs) \<longleftrightarrow> Some x \<in> set xs"
  by (induction xs) (auto simp: notna_def List.map_filter_simps split: option.splits)

lemma series_max_Some:
  assumes "series_max xs = Some hi"
  shows "Some hi \<in> set xs" and "Some x \<in> set xs \<Longrightarrow> x \<le> hi"
proof -
  from assms obtain v vs where n: "notna xs = v # vs" and hi: "hi = fold max vs v"
    by (auto simp: series_max_def split: list.splits)
  then have m: "hi = Max (set (notna xs))"
    by (simp only: Max.set_eq_fold)
  have "hi \<in> set (notna xs)"
    unfolding m by (rule Max_in) (simp_all add: n)
  then show "Some hi \<in> set xs" by (simp add: set_notna)
  show "x \<le> hi" if "Some x \<in> set xs"
    unfolding m using that by (intro Max_ge) (simp_all add: set_notna)
qed

lemma series_min_Some:
  assumes "series_min xs = Some lo"
  shows "Some lo \<in> set xs" and "Some x \<in> set xs \<Longrightarrow> lo \<le> x"
proof -
  from assms obtain v vs where n: "notna xs = v # vs" and lo: "lo = fold min vs v"
    by (auto simp: series_min_def split: list.splits)
  then have m: "lo = Min (set (notna xs))"
    by (simp only: Min.set_eq_fold)
  have "lo \<in> set (notna xs)"
    unfolding m by (rule Min_in) (simp_all add: n)
  then show "Some lo \<in> set xs" by (simp add: set_notna)
  show "lo \<le> x" if "Some x \<in> set xs"
    unfolding m using that by (intro Min_le) (simp_all add: set_notna)
qed

lemma series_min_exists: "Some x \<in> set xs \<Longrightarrow> \<exists>lo. series_min xs = Some lo"
  by (cases "notna xs") (auto simp: series_min_def set_notna [symmetric])

section \<open>The loader\<close>

text \<open>
  C1. Every record of the dataset that \<^verbatim>\<open>load_data\<close> of the final script returns has a
  latitude and a longitude that are numbers, and the dataset has as many rows as the frame
  read from the file has rows whose latitude and longitude are both present and both
  accepted by the numeric conversion.
\<close>

theorem loaded_rows_have_coordinates:
  assumes "load_data to_numeric to_datetime rd = Returns df"
  shows "(\<forall>r \<in> set (rows df). \<exists>lat lon. Latitud r = Some lat \<and> Longitud r = Some lon)
       \<and> (\<exists>raw. snd (read_with_fallback rd) = Returns raw
                \<and> length (rows df) = length (rows_with_coordinates to_numeric raw))"
proof -
  from assms obtain raw where raw: "snd (read_with_fallback rd) = Returns raw"
    and c: "clean to_numeric to_datetime raw = Returns df"
    by (auto simp: load_data_def split: outcome.splits)
  have "\<forall>r \<in> set (rows df). \<exists>lat lon. Latitud r = Some lat \<and> Longitud r = Some lon"
    by (auto simp: rows_clean(1) [OF c] dropna_def)
  moreover have "length (rows df) = length (rows_with_coordinates to_numeric raw)"
    by (simp add: rows_clean(1) [OF c] length_dropna_convert)
  ultimately show ?thesis using raw by blast
qed

text \<open>
  C2. The claim asks that a latitude or longitude that is no number makes the row disappear
  and never makes the loader raise. The final script does so (see
  \<open>final_script_coerces_cells\<close>). \<^verbatim>\<open>load_data\<close> of \<^verbatim>\<open>app.py\<close> drops the rows with a missing
  coordinate and then converts with \<^verbatim>\<open>astype(float)\<close>: on a frame whose second row has the
  latitude \<^verbatim>\<open>abc\<close> it raises \<^verbatim>\<open>ValueError\<close>.
\<close>

theorem first_script_raises_on_text_latitude:
  "app_load_data plain_decimal (\<lambda>enc. Inr plain_sheet) = Raises (ValueError ''abc'')"
  by code_simp

text \<open>
  C5. The loader calls \<^verbatim>\<open>read_csv\<close> with utf-8, then latin1, then cp1252, and stops calling
  at the first call that raises no decode error: that call's frame or exception is the
  result of the loop. The read-error message and the stop come exactly when all three
  calls raise a decode error, in both scripts.
\<close>

theorem encodings_tried_in_order:
  "fst (read_with_fallback rd) =
     (if rd Utf8 \<noteq> Inl UnicodeDecodeError then [Utf8]
      else if rd Latin1 \<noteq> Inl UnicodeDecodeError then [Utf8, Latin1]
      else [Utf8, Latin1, Cp1252])
   \<and> snd (read_with_fallback rd) =
     (if rd Utf8 \<noteq> Inl UnicodeDecodeError then finish (rd Utf8)
      else if rd Latin1 \<noteq> Inl UnicodeDecodeError then finish (rd Latin1)
      else if rd Cp1252 \<noteq> Inl UnicodeDecodeError then finish (rd Cp1252)
      else Stops ReadErrorMsg)
   \<and> (load_data to_numeric to_datetime rd = Stops ReadErrorMsg) =
       (rd Utf8 = Inl UnicodeDecodeError \<and> rd Latin1 = Inl UnicodeDecodeError
        \<and> rd Cp1252 = Inl UnicodeDecodeError)
   \<and> (app_load_data float_of rd = Stops ReadErrorMsg) =
       (rd Utf8 = Inl UnicodeDecodeError \<and> rd Latin1 = Inl UnicodeDecodeError
        \<and> rd Cp1252 = Inl UnicodeDecodeError)"
  by (simp add: load_data_stops app_load_data_stops read_with_fallback_cases finish_no_stop)

text \<open>
  C9. As stated the claim fails: the loop does not always succeed. On a file without any
  byte the first call raises \<^verbatim>\<open>EmptyDataError\<close>, which the loop does not catch, and the
  loader raises it to its caller.
\<close>

theorem empty_file_raises_at_first_call:
  "read_with_fallback (read_csv (\<lambda>enc bs. Inl EmptyDataError) (\<lambda>enc bs. True) [])
     = ([Utf8], Raises (CsvError EmptyDataError))
   \<and> load_data plain_decimal two_dates
         (read_csv (\<lambda>enc bs. Inl EmptyDataError) (\<lambda>enc bs. True) [])
       = Raises (CsvError EmptyDataError)
   \<and> app_load_data plain_decimal
         (read_csv (\<lambda>enc bs. Inl EmptyDataError) (\<lambda>enc bs. True) [])
       = Raises (CsvError EmptyDataError)"
  by (simp add: read_with_fallback_def encodings_def read_csv_def load_data_def app_load_data_def)

text \<open>
  C9, amended. Latin-1 decodes every sequence of bytes, so for every file the call with
  latin1 raises no decode error: the loop ends at the call with utf-8 or at the call with
  latin1, with what that call gives (a frame, or an exception other than a decode
  error); on bytes that are valid UTF-8 it ends at the first call. cp1252 is never tried,
  and neither script ever reaches the read-error message.
\<close>

theorem latin1_call_ends_the_loop:
  "decodable Latin1 file
   \<and> read_csv tokenize reaches file Latin1 \<noteq> Inl UnicodeDecodeError
   \<and> (read_with_fallback (read_csv tokenize reaches file)
         = ([Utf8], finish (read_csv tokenize reaches file Utf8))
       \<or> read_with_fallback (read_csv tokenize reaches file)
         = ([Utf8, Latin1], finish (read_csv tokenize reaches file Latin1)))
   \<and> (if utf8_valid file then fst (read_with_fallback (read_csv tokenize reaches file)) = [Utf8]
       else fst (read_with_fallback (read_csv tokenize reaches file)) = [Utf8]
            \<or> fst (read_with_fallback (read_csv tokenize reaches file)) = [Utf8, Latin1])
   \<and> snd (read_with_fallback (read_csv tokenize reaches file)) \<noteq> Stops ReadErrorMsg
   \<and> load_data to_numeric to_datetime (read_csv tokenize reaches file) \<noteq> Stops ReadErrorMsg
   \<and> app_load_data float_of (read_csv tokenize reaches file) \<noteq> Stops ReadErrorMsg"
proof -
  have valid: "utf8_valid file \<Longrightarrow> read_csv tokenize reaches file Utf8 \<noteq> Inl UnicodeDecodeError"
    by (rule read_csv_utf8_valid)
  show ?thesis
    by (auto simp: load_data_stops app_load_data_stops read_with_fallback_cases read_csv_latin1
          finish_no_stop valid)
qed

section \<open>The filters\<close>

text \<open>
  C3. The claim asks that a record without location text never matches a location
  criterion. The script renders the column with \<^verbatim>\<open>astype(str)\<close> before it searches, so a
  missing location is searched as the text \<^verbatim>\<open>nan\<close> and \<^verbatim>\<open>na=False\<close> has nothing left to
  act on: with the criterion \<^verbatim>\<open>nan\<close> the one specimen without location is the only one
  retained.
\<close>

theorem null_location_matches_nan:
  "lugar_step re_compile ''nan'' four_rabbits
     = Inr (four_rabbits\<lparr>rows := [rabbit_b]\<rparr>)"
  by code_simp

text \<open>
  C4. With an empty species selection the block is the block without its species
  statement; with a non-empty selection it is that block run on exactly the records
  whose species is selected. The later statements do not read the selection.
\<close>

theorem species_empty_selection_passes_through:
  "(selected_species c = [] \<longrightarrow>
      filter_block re_compile hf ha c df
        = remaining_steps re_compile hf ha c \<lparr>v_df = df, v_filtered_df = df\<rparr>)
   \<and> (selected_species c \<noteq> [] \<longrightarrow>
      filter_block re_compile hf ha c df
        = remaining_steps re_compile hf ha c
            \<lparr>v_df = df,
             v_filtered_df = df\<lparr>rows := filter (\<lambda>r. Especie r \<in> set (selected_species c)) (rows df)\<rparr>\<rparr>)
   \<and> remaining_steps re_compile hf ha (c\<lparr>selected_species := sel\<rparr>) vs
        = remaining_steps re_compile hf ha c vs"
  by (auto simp: filter_block_def remaining_steps_def species_step_def select_rows_def Let_def
        split: sum.splits)

text \<open>
  C6. A feature flag is true exactly when the column exists and has a value that is not
  missing. For a dataset whose flag is true and criteria with both endpoints, the view is
  exactly the records of the view without that range whose date (or altitude) lies
  between the endpoints, both included; a record without the value is not among them.
  With the flag false or an endpoint missing the view is the view without the range. The
  same holds of the date step and of the altitude step taken alone.
\<close>

theorem range_steps_gated_and_inclusive:
  "has_fecha df = (''Fecha'' \<in> set (columns df) \<and> (\<exists>r \<in> set (rows df). Fecha r \<noteq> None))
   \<and> has_alt df = (''Altitud'' \<in> set (columns df) \<and> (\<exists>r \<in> set (rows df). Altitud r \<noteq> None))
   \<and> (has_fecha df \<and> start_dt c = Some s \<and> end_dt c = Some e
        \<and> apply_filters re_compile df (c\<lparr>start_dt := None, end_dt := None\<rparr>) = Inr vd \<longrightarrow>
          (\<exists>v. apply_filters re_compile df c = Inr v
               \<and> rows v = filter (\<lambda>r. \<exists>d. Fecha r = Some d \<and> s \<le> d \<and> d \<le> e) (rows vd)
               \<and> columns v = columns vd))
   \<and> (has_alt df \<and> alt_min_sel c = Some a \<and> alt_max_sel c = Some b
        \<and> apply_filters re_compile df (c\<lparr>alt_min_sel := None, alt_max_sel := None\<rparr>) = Inr va \<longrightarrow>
          (\<exists>v. apply_filters re_compile df c = Inr v
               \<and> rows v = filter (\<lambda>r. \<exists>x. Altitud r = Some x \<and> real_of_int a \<le> x \<and> x \<le> real_of_int b)
                            (rows va)
               \<and> columns v = columns va))
   \<and> (\<not> has_fecha df \<or> start_dt c = None \<or> end_dt c = None \<longrightarrow>
        apply_filters re_compile df c = apply_filters re_compile df (c\<lparr>start_dt := None, end_dt := None\<rparr>))
   \<and> (\<not> has_alt df \<or> alt_min_sel c = None \<or> alt_max_sel c = None \<longrightarrow>
        apply_filters re_compile df c = apply_filters re_compile df (c\<lparr>alt_min_sel := None, alt_max_sel := None\<rparr>))
   \<and> (hf \<longrightarrow> rows (fecha_step hf (Some s) (Some e) fdf)
          = filter (\<lambda>r. \<exists>d. Fecha r = Some d \<and> s \<le> d \<and> d \<le> e) (rows fdf))
   \<and> (ha \<longrightarrow> rows (alt_step ha (Some a) (Some b) fdf)
          = filter (\<lambda>r. \<exists>x. Altitud r = Some x \<and> real_of_int a \<le> x \<and> x \<le> real_of_int b) (rows fdf))
   \<and> columns (fecha_step hf sd ed fdf) = columns fdf
   \<and> columns (alt_step ha lo hi fdf) = columns fdf
   \<and> (\<not> hf \<or> sd = None \<or> ed = None \<longrightarrow> fecha_step hf sd ed fdf = fdf)
   \<and> (\<not> ha \<or> lo = None \<or> hi = None \<longrightarrow> alt_step ha lo hi fdf = fdf)"
proof -
  have between_ex: "\<And>lo hi (v :: 'a::linorder option). between lo hi v = (\<exists>x. v = Some x \<and> lo \<le> x \<and> x \<le> hi)"
    by (simp add: between_def split: option.splits)
  have flags: "has_fecha df = (''Fecha'' \<in> set (columns df) \<and> (\<exists>r \<in> set (rows df). Fecha r \<noteq> None))"
    "has_alt df = (''Altitud'' \<in> set (columns df) \<and> (\<exists>r \<in> set (rows df). Altitud r \<noteq> None))"
    by (simp_all add: has_fecha_def has_alt_def list_ex_iff)
  have view_dates: "\<exists>v. apply_filters re_compile df c = Inr v
               \<and> rows v = filter (\<lambda>r. \<exists>d. Fecha r = Some d \<and> s \<le> d \<and> d \<le> e) (rows vd)
               \<and> columns v = columns vd"
    if "has_fecha df" and "start_dt c = Some s" and "end_dt c = Some e"
      and "apply_filters re_compile df (c\<lparr>start_dt := None, end_dt := None\<rparr>) = Inr vd"
  proof -
    from that(4) obtain f where
      f: "lugar_step re_compile (lugar_text c) (species_step (selected_species c) df) = Inr f"
      and vd: "vd = alt_step (has_alt df) (alt_min_sel c) (alt_max_sel c) f"
      by (auto simp: apply_filters_eq fecha_step_def split: sum.splits)
    have "apply_filters re_compile df c
            = Inr (alt_step (has_alt df) (alt_min_sel c) (alt_max_sel c)
                     (select_rows (\<lambda>r. between s e (Fecha r)) f))"
      using that(1,2,3) by (simp add: apply_filters_eq f fecha_step_def)
    moreover have "rows (alt_step (has_alt df) (alt_min_sel c) (alt_max_sel c)
                     (select_rows (\<lambda>r. between s e (Fecha r)) f))
            = filter (\<lambda>r. \<exists>d. Fecha r = Some d \<and> s \<le> d \<and> d \<le> e) (rows vd)"
      by (simp add: vd alt_step_select rows_select_rows between_ex conj_commute)
    moreover have "columns (alt_step (has_alt df) (alt_min_sel c) (alt_max_sel c)
                     (select_rows (\<lambda>r. between s e (Fecha r)) f)) = columns vd"
      by (simp add: vd alt_step_select columns_select_rows)
    ultimately show ?thesis by blast
  qed
  have view_alts: "\<exists>v. apply_filters re_compile df c = Inr v
               \<and> rows v = filter (\<lambda>r. \<exists>x. Altitud r = Some x \<and> real_of_int a \<le> x \<and> x \<le> real_of_int b)
                            (rows va)
               \<and> columns v = columns va"
    if "has_alt df" and "alt_min_sel c = Some a" and "alt_max_sel c = Some b"
      and "apply_filters re_compile df (c\<lparr>alt_min_sel := None, alt_max_sel := None\<rparr>) = Inr va"
  proof -
    from that(4) obtain f where
      f: "lugar_step re_compile (lugar_text c) (species_step (selected_species c) df) = Inr f"
      and va: "va = fecha_step (has_fecha df) (start_dt c) (end_dt c) f"
      by (auto simp: apply_filters_eq alt_step_def split: sum.splits)
    have "apply_filters re_compile df c
            = Inr (select_rows (\<lambda>r. between (real_of_int a) (real_of_int b) (Altitud r)) va)"
      using that(1,2,3) by (simp add: apply_filters_eq f alt_step_def va)
    then show ?thesis
      by (simp add: rows_select_rows columns_select_rows between_ex)
  qed
  have idle_view: "\<not> has_fecha df \<or> start_dt c = None \<or> end_dt c = None \<longrightarrow>
        apply_filters re_compile df c = apply_filters re_compile df (c\<lparr>start_dt := None, end_dt := None\<rparr>)"
    "\<not> has_alt df \<or> alt_min_sel c = None \<or> alt_max_sel c = None \<longrightarrow>
        apply_filters re_compile df c = apply_filters re_compile df (c\<lparr>alt_min_sel := None, alt_max_sel := None\<rparr>)"
    by (auto simp: apply_filters_eq fecha_step_def alt_step_def split: option.splits sum.splits)
  have active: "hf \<longrightarrow> rows (fecha_step hf (Some s) (Some e) fdf)
          = filter (\<lambda>r. \<exists>d. Fecha r = Some d \<and> s \<le> d \<and> d \<le> e) (rows fdf)"
    "ha \<longrightarrow> rows (alt_step ha (Some a) (Some b) fdf)
          = filter (\<lambda>r. \<exists>x. Altitud r = Some x \<and> real_of_int a \<le> x \<and> x \<le> real_of_int b) (rows fdf)"
    by (simp_all add: fecha_step_def alt_step_def rows_select_rows between_ex)
  have cols: "columns (fecha_step hf sd ed fdf) = columns fdf"
    "columns (alt_step ha lo hi fdf) = columns fdf"
    by (simp_all add: fecha_step_select alt_step_select columns_select_rows)
  have idle: "\<not> hf \<or> sd = None \<or> ed = None \<longrightarrow> fecha_step hf sd ed fdf = fdf"
    "\<not> ha \<or> lo = None \<or> hi = None \<longrightarrow> alt_step ha lo hi fdf = fdf"
    by (auto simp: fecha_step_def alt_step_def split: option.splits)
  from flags view_dates view_alts idle_view active cols idle show ?thesis by blast
qed

text \<open>
  C7. Where the view exists: with a non-empty species selection, a selection that has one
  more species gives a view that exists and has at least as many rows; a date range or
  an altitude range contained in the current one gives a view that exists and has at most
  as many rows.
\<close>

theorem filtered_view_monotone:
  assumes "apply_filters re_compile df c = Inr v"
  shows "(selected_species c \<noteq> [] \<and> set sel' = insert x (set (selected_species c)) \<longrightarrow>
            (\<exists>v'. apply_filters re_compile df (c\<lparr>selected_species := sel'\<rparr>) = Inr v'
                  \<and> length (rows v) \<le> length (rows v')))
       \<and> (start_dt c = Some s \<and> end_dt c = Some e \<and> s \<le> s' \<and> e' \<le> e \<longrightarrow>
            (\<exists>v'. apply_filters re_compile df (c\<lparr>start_dt := Some s', end_dt := Some e'\<rparr>) = Inr v'
                  \<and> length (rows v') \<le> length (rows v)))
       \<and> (alt_min_sel c = Some a \<and> alt_max_sel c = Some b \<and> a \<le> a' \<and> b' \<le> b \<longrightarrow>
            (\<exists>v'. apply_filters re_compile df (c\<lparr>alt_min_sel := Some a', alt_max_sel := Some b'\<rparr>) = Inr v'
                  \<and> length (rows v') \<le> length (rows v)))"
proof -
  from apply_filters_select [OF assms] obtain p where
    p: "\<And>sel sd ed lo hi.
           apply_filters re_compile df (c\<lparr>selected_species := sel, start_dt := sd, end_dt := ed,
                                         alt_min_sel := lo, alt_max_sel := hi\<rparr>)
           = Inr (select_rows (\<lambda>r. (sel = [] \<or> Especie r \<in> set sel) \<and> p r
                    \<and> (\<not> has_fecha df \<or> sd = None \<or> ed = None \<or> between (the sd) (the ed) (Fecha r))
                    \<and> (\<not> has_alt df \<or> lo = None \<or> hi = None
                         \<or> between (real_of_int (the lo)) (real_of_int (the hi)) (Altitud r))) df)"
    by blast
  have v: "v = select_rows (\<lambda>r. (selected_species c = [] \<or> Especie r \<in> set (selected_species c)) \<and> p r
                    \<and> (\<not> has_fecha df \<or> start_dt c = None \<or> end_dt c = None
                         \<or> between (the (start_dt c)) (the (end_dt c)) (Fecha r))
                    \<and> (\<not> has_alt df \<or> alt_min_sel c = None \<or> alt_max_sel c = None
                         \<or> between (real_of_int (the (alt_min_sel c))) (real_of_int (the (alt_max_sel c)))
                              (Altitud r))) df"
    using p [where sel = "selected_species c" and sd = "start_dt c" and ed = "end_dt c"
                and lo = "alt_min_sel c" and hi = "alt_max_sel c"] assms
    by simp
  have species: "\<exists>v'. apply_filters re_compile df (c\<lparr>selected_species := sel'\<rparr>) = Inr v'
                  \<and> length (rows v) \<le> length (rows v')"
    if "selected_species c \<noteq> []" and "set sel' = insert x (set (selected_species c))"
  proof -
    from that have "sel' \<noteq> []" by auto
    with that show ?thesis
      using p [where sel = sel' and sd = "start_dt c" and ed = "end_dt c"
                and lo = "alt_min_sel c" and hi = "alt_max_sel c"]
      by (auto simp: v rows_select_rows intro!: length_filter_mono)
  qed
  have dates: "\<exists>v'. apply_filters re_compile df (c\<lparr>start_dt := Some s', end_dt := Some e'\<rparr>) = Inr v'
                  \<and> length (rows v') \<le> length (rows v)"
    if "start_dt c = Some s" and "end_dt c = Some e" and "s \<le> s'" and "e' \<le> e"
    using that p [where sel = "selected_species c" and sd = "Some s'" and ed = "Some e'"
                     and lo = "alt_min_sel c" and hi = "alt_max_sel c"]
    by (auto simp: v rows_select_rows between_def split: option.splits intro!: length_filter_mono)
  have alts: "\<exists>v'. apply_filters re_compile df (c\<lparr>alt_min_sel := Some a', alt_max_sel := Some b'\<rparr>) = Inr v'
                  \<and> length (rows v') \<le> length (rows v)"
    if "alt_min_sel c = Some a" and "alt_max_sel c = Some b" and "a \<le> a'" and "b' \<le> b"
    using that p [where sel = "selected_species c" and sd = "start_dt c" and ed = "end_dt c"
                     and lo = "Some a'" and hi = "Some b'"]
    by (auto simp: v rows_select_rows between_def split: option.splits intro!: length_filter_mono)
  from species dates alts show ?thesis by blast
qed

text \<open>
  C8. For every dataset and criteria: whenever the four steps run through and leave no
  record, the pipeline (lines 129 to 153) raises nothing. It ends with the no-match
  message and a stop, and \<^verbatim>\<open>df\<close> is the dataset it was given.
\<close>

theorem empty_view_stops_with_message:
  assumes "filter_block re_compile hf ha c df = Inr vs" and "rows (v_filtered_df vs) = []"
  shows "filter_pipeline re_compile hf ha c df = (df, Stops NoMatchMsg)
         \<and> v_df vs = df"
proof -
  from assms(1) have "v_df vs = df"
    by (auto simp: filter_block_def remaining_steps_def Let_def split: sum.splits)
  with assms show ?thesis
    by (auto simp: filter_pipeline_def empty_guard_def)
qed

text \<open>
  C10. The default altitude range, on a fresh session and after a reset, is the minimum
  and the maximum altitude of the dataset, each truncated to an integer. For criteria
  that carry this range and the default empty location text, whatever species and dates
  they select, the view exists, a record whose altitude is above the truncated maximum
  is not in it, and the view is a proper part of the dataset. Whether the sliders of
  Streamlit accept the bounds they are given is not part of the statement.
\<close>

theorem default_altitude_range_drops_top_record:
  assumes "r \<in> set (rows df)" and "''Altitud'' \<in> set (columns df)" and "Altitud r = Some a"
    and "series_max (map Altitud (rows df)) = Some hi" and "real_of_int (py_int hi) < a"
    and "pair_of (alt_min_sel c) (alt_max_sel c) = alt_filter (init_session df fresh_session)"
    and "Some (lugar_text c) = lugar_filter (init_session df fresh_session)"
  shows "\<exists>lo. series_min (map Altitud (rows df)) = Some lo
            \<and> (\<forall>r' \<in> set (rows df). \<forall>x. Altitud r' = Some x \<longrightarrow> lo \<le> x \<and> x \<le> hi)
            \<and> alt_filter (init_session df fresh_session) = Some (py_int lo, py_int hi)
            \<and> alt_filter (reset_filters df st) = Some (py_int lo, py_int hi)
            \<and> alt_filter (init_session df (reset_filters df st)) = Some (py_int lo, py_int hi)
            \<and> lugar_filter (reset_filters df st) = Some []
            \<and> alt_min_sel c = Some (py_int lo) \<and> alt_max_sel c = Some (py_int hi)
            \<and> (\<exists>v. apply_filters re_compile df c = Inr v \<and> r \<notin> set (rows v)
                    \<and> set (rows v) \<subset> set (rows df) \<and> length (rows v) < length (rows df))"
proof -
  from assms(1,3) have a_in: "Some a \<in> set (map Altitud (rows df))"
    by (metis image_eqI list.set_map)
  then obtain lo where lo: "series_min (map Altitud (rows df)) = Some lo"
    using series_min_exists by blast
  from assms(1,2,3) have ha: "has_alt df"
    by (auto simp: has_alt_def list_ex_iff)
  have bounds: "\<forall>r' \<in> set (rows df). \<forall>x. Altitud r' = Some x \<longrightarrow> lo \<le> x \<and> x \<le> hi"
  proof (intro ballI allI impI)
    fix r' x assume "r' \<in> set (rows df)" and "Altitud r' = Some x"
    then have "Some x \<in> set (map Altitud (rows df))"
      by (metis image_eqI list.set_map)
    then show "lo \<le> x \<and> x \<le> hi"
      using series_min_Some(2) [OF lo] series_max_Some(2) [OF assms(4)] by blast
  qed
  have pair: "pair_of (global_alt_min df) (global_alt_max df) = Some (py_int lo, py_int hi)"
    by (simp add: pair_of_def global_alt_min_def global_alt_max_def lo assms(4))
  have fresh: "alt_filter (init_session df fresh_session) = Some (py_int lo, py_int hi)"
    and reset: "alt_filter (reset_filters df st) = Some (py_int lo, py_int hi)"
    and again: "alt_filter (init_session df (reset_filters df st)) = Some (py_int lo, py_int hi)"
    and place: "lugar_filter (reset_filters df st) = Some []"
    by (simp_all add: init_session_def reset_filters_def fresh_session_def ha pair)
  from assms(6) have sel: "alt_min_sel c = Some (py_int lo) \<and> alt_max_sel c = Some (py_int hi)"
    by (auto simp: fresh pair_of_def split: option.splits)
  from assms(7) have no_text: "lugar_text c = []"
    by (simp add: init_session_def fresh_session_def)
  define v where "v = alt_step (has_alt df) (alt_min_sel c) (alt_max_sel c)
                        (fecha_step (has_fecha df) (start_dt c) (end_dt c)
                           (species_step (selected_species c) df))"
  have view: "apply_filters re_compile df c = Inr v"
    by (simp add: apply_filters_eq no_text lugar_step_empty v_def)
  have rows_v: "rows v = filter (\<lambda>x. (selected_species c = [] \<or> Especie x \<in> set (selected_species c))
                    \<and> (\<not> has_fecha df \<or> start_dt c = None \<or> end_dt c = None
                         \<or> between (the (start_dt c)) (the (end_dt c)) (Fecha x))
                    \<and> between (real_of_int (py_int lo)) (real_of_int (py_int hi)) (Altitud x)) (rows df)"
    by (simp add: v_def species_step_select fecha_step_select alt_step_select select_rows_twice
          rows_select_rows ha sel conj_assoc)
  from assms(3,5) have out: "\<not> between (real_of_int (py_int lo)) (real_of_int (py_int hi)) (Altitud r)"
    by (simp add: between_def)
  then have notin: "r \<notin> set (rows v)"
    by (simp add: rows_v)
  have "set (rows v) \<subseteq> set (rows df)"
    by (auto simp: rows_v)
  with notin assms(1) have strict: "set (rows v) \<subset> set (rows df)"
    by blast
  have shorter: "length (rows v) < length (rows df)"
    unfolding rows_v using assms(1) out by (intro length_filter_less) auto
  from lo bounds fresh reset again place sel view notin strict shorter show ?thesis
    by blast
qed

section \<open>The theorems at the example data\<close>

text \<open>
  The final script loads two of the four rows of the first frame: the second row has no
  latitude and the third has the latitude \<^verbatim>\<open>abc\<close>. The last row has no species and is
  loaded with the species \<^verbatim>\<open>nan\<close>.
\<close>

theorem loaded_rows_have_coordinates_witness:
  "load_data plain_decimal two_dates (\<lambda>enc. Inr field_sheet) = Returns loaded_sheet
   \<and> map Latitud (rows loaded_sheet) = [Some 10.3, Some 9.9]
   \<and> map Longitud (rows loaded_sheet) = [Some (- 84.4), Some (- 83.9)]
   \<and> length (body field_sheet) = 4
   \<and> length (rows loaded_sheet) = 2
   \<and> length (rows_with_coordinates plain_decimal field_sheet) = 2"
proof -
  have h: "load_data plain_decimal two_dates (\<lambda>enc. Inr field_sheet) = Returns loaded_sheet"
    by code_simp
  have "snd (read_with_fallback (\<lambda>enc. Inr field_sheet)) = Returns field_sheet"
    by (simp add: read_with_fallback_def encodings_def)
  with loaded_rows_have_coordinates [OF h] h show ?thesis
    by (simp add: loaded_sheet_def field_sheet_def)
qed

theorem species_empty_selection_passes_through_witness:
  "selected_species no_criteria = []
   \<and> filter_block (\<lambda>pat. None) True True no_criteria four_rabbits
       = remaining_steps (\<lambda>pat. None) True True no_criteria \<lparr>v_df = four_rabbits, v_filtered_df = four_rabbits\<rparr>
   \<and> selected_species x_criteria \<noteq> []
   \<and> filter_block (\<lambda>pat. None) True True x_criteria four_rabbits
       = remaining_steps (\<lambda>pat. None) True True x_criteria
           \<lparr>v_df = four_rabbits, v_filtered_df = four_rabbits\<lparr>rows := [rabbit_a, rabbit_b]\<rparr>\<rparr>"
proof -
  have e: "selected_species no_criteria = []"
    by (simp add: no_criteria_def)
  have n: "selected_species x_criteria \<noteq> []"
    by (simp add: x_criteria_def)
  have f: "filter (\<lambda>r. Especie r \<in> set (selected_species x_criteria)) (rows four_rabbits)
             = [rabbit_a, rabbit_b]"
    by (simp add: x_criteria_def four_rabbits_def rabbit_a_def rabbit_b_def rabbit_c_def rabbit_d_def
          rabbit_def)
  from species_empty_selection_passes_through
         [where c = no_criteria and re_compile = "\<lambda>pat. None" and hf = True and ha = True
            and df = four_rabbits]
       species_empty_selection_passes_through
         [where c = x_criteria and re_compile = "\<lambda>pat. None" and hf = True and ha = True
            and df = four_rabbits]
       e n
  show ?thesis
    by (simp only: f simp_thms)
qed

theorem empty_view_stops_with_message_witness:
  "filter_block (\<lambda>pat. None) (has_fecha four_rabbits) (has_alt four_rabbits) heredia_criteria four_rabbits
     = Inr \<lparr>v_df = four_rabbits, v_filtered_df = four_rabbits\<lparr>rows := []\<rparr>\<rparr>
   \<and> rows (v_filtered_df \<lparr>v_df = four_rabbits, v_filtered_df = four_rabbits\<lparr>rows := []\<rparr>\<rparr>) = []
   \<and> filter_pipeline (\<lambda>pat. None) (has_fecha four_rabbits) (has_alt four_rabbits) heredia_criteria
        four_rabbits
     = (four_rabbits, Stops NoMatchMsg)"
proof -
  have h: "filter_block (\<lambda>pat. None) (has_fecha four_rabbits) (has_alt four_rabbits) heredia_criteria
             four_rabbits
     = Inr \<lparr>v_df = four_rabbits, v_filtered_df = four_rabbits\<lparr>rows := []\<rparr>\<rparr>"
    by code_simp
  have e: "rows (v_filtered_df \<lparr>v_df = four_rabbits, v_filtered_df = four_rabbits\<lparr>rows := []\<rparr>\<rparr>) = []"
    by simp
  from empty_view_stops_with_message [OF h e] h e show ?thesis
    by blast
qed

theorem range_steps_gated_and_inclusive_witness:
  "has_fecha four_rabbits \<and> has_alt four_rabbits \<and> \<not> has_alt bare_rabbits
   \<and> apply_filters (\<lambda>pat. None) four_rabbits
        (no_criteria\<lparr>start_dt := Some 1577836800000000000, end_dt := Some 1590969600000000000\<rparr>)
      = Inr (four_rabbits\<lparr>rows := [rabbit_a, rabbit_d]\<rparr>)
   \<and> apply_filters (\<lambda>pat. None) four_rabbits (no_criteria\<lparr>alt_min_sel := Some 80, alt_max_sel := Some 500\<rparr>)
      = Inr (four_rabbits\<lparr>rows := [rabbit_b, rabbit_d]\<rparr>)
   \<and> apply_filters (\<lambda>pat. None) four_rabbits (no_criteria\<lparr>end_dt := Some 1590969600000000000\<rparr>)
      = apply_filters (\<lambda>pat. None) four_rabbits no_criteria
   \<and> apply_filters (\<lambda>pat. None) bare_rabbits x_criteria
       = apply_filters (\<lambda>pat. None) bare_rabbits (x_criteria\<lparr>alt_min_sel := None, alt_max_sel := None\<rparr>)
   \<and> rows (fecha_step (has_fecha four_rabbits) (Some 1577836800000000000) (Some 1590969600000000000)
             four_rabbits) = [rabbit_a, rabbit_d]
   \<and> rows (alt_step (has_alt four_rabbits) (Some 80) (Some 500) four_rabbits) = [rabbit_b, rabbit_d]
   \<and> alt_step (has_alt bare_rabbits) (Some 80) (Some 500) bare_rabbits = bare_rabbits"
proof -
  have hf: "has_fecha four_rabbits" and ha: "has_alt four_rabbits" and na: "\<not> has_alt bare_rabbits"
    by code_simp+
  have all: "apply_filters (\<lambda>pat. None) four_rabbits no_criteria = Inr four_rabbits"
    by code_simp
  have dates: "filter (\<lambda>r. \<exists>d. Fecha r = Some d \<and> 1577836800000000000 \<le> d \<and> d \<le> 1590969600000000000)
                 (rows four_rabbits) = [rabbit_a, rabbit_d]"
    by (simp add: four_rabbits_def rabbit_a_def rabbit_b_def rabbit_c_def rabbit_d_def rabbit_def)
  have alts: "filter (\<lambda>r. \<exists>x. Altitud r = Some x \<and> real_of_int 80 \<le> x \<and> x \<le> real_of_int 500)
                 (rows four_rabbits) = [rabbit_b, rabbit_d]"
    by (simp add: four_rabbits_def rabbit_a_def rabbit_b_def rabbit_c_def rabbit_d_def rabbit_def)
  have same: "no_criteria\<lparr>start_dt := Some 1577836800000000000, end_dt := Some 1590969600000000000\<rparr>
                \<lparr>start_dt := None, end_dt := None\<rparr> = no_criteria"
    "no_criteria\<lparr>alt_min_sel := Some 80, alt_max_sel := Some 500\<rparr>
                \<lparr>alt_min_sel := None, alt_max_sel := None\<rparr> = no_criteria"
    "no_criteria\<lparr>end_dt := Some 1590969600000000000\<rparr>\<lparr>start_dt := None, end_dt := None\<rparr> = no_criteria"
    by (simp_all add: no_criteria_def)
  have ends: "start_dt (no_criteria\<lparr>start_dt := Some 1577836800000000000, end_dt := Some 1590969600000000000\<rparr>)
                = Some 1577836800000000000"
    "end_dt (no_criteria\<lparr>start_dt := Some 1577836800000000000, end_dt := Some 1590969600000000000\<rparr>)
                = Some 1590969600000000000"
    "alt_min_sel (no_criteria\<lparr>alt_min_sel := Some 80, alt_max_sel := Some 500\<rparr>) = Some 80"
    "alt_max_sel (no_criteria\<lparr>alt_min_sel := Some 80, alt_max_sel := Some 500\<rparr>) = Some 500"
    "start_dt (no_criteria\<lparr>end_dt := Some 1590969600000000000\<rparr>) = None"
    by (simp_all add: no_criteria_def)
  note by_date = range_steps_gated_and_inclusive
    [where df = four_rabbits and re_compile = "\<lambda>pat. None"
       and c = "no_criteria\<lparr>start_dt := Some 1577836800000000000, end_dt := Some 1590969600000000000\<rparr>"
       and s = 1577836800000000000 and e = 1590969600000000000 and vd = four_rabbits
       and hf = "has_fecha four_rabbits" and fdf = four_rabbits]
  note by_altitude = range_steps_gated_and_inclusive
    [where df = four_rabbits and re_compile = "\<lambda>pat. None"
       and c = "no_criteria\<lparr>alt_min_sel := Some 80, alt_max_sel := Some 500\<rparr>"
       and a = 80 and b = 500 and va = four_rabbits
       and ha = "has_alt four_rabbits" and fdf = four_rabbits]
  note one_end = range_steps_gated_and_inclusive
    [where df = four_rabbits and re_compile = "\<lambda>pat. None"
       and c = "no_criteria\<lparr>end_dt := Some 1590969600000000000\<rparr>"]
  note without = range_steps_gated_and_inclusive
    [where df = bare_rabbits and ha = "has_alt bare_rabbits" and fdf = bare_rabbits
       and lo = "Some 80" and hi = "Some 500" and re_compile = "\<lambda>pat. None" and c = x_criteria]
  from by_date hf all ends(1,2) same(1)
  obtain v where v: "apply_filters (\<lambda>pat. None) four_rabbits
        (no_criteria\<lparr>start_dt := Some 1577836800000000000, end_dt := Some 1590969600000000000\<rparr>) = Inr v"
    and "rows v = filter (\<lambda>r. \<exists>d. Fecha r = Some d \<and> 1577836800000000000 \<le> d \<and> d \<le> 1590969600000000000)
                    (rows four_rabbits)"
    and "columns v = columns four_rabbits"
    by (metis (no_types, lifting))
  then have v_eq: "v = four_rabbits\<lparr>rows := [rabbit_a, rabbit_d]\<rparr>"
    by (simp add: dates)
  from by_altitude ha all ends(3,4) same(2)
  obtain w where w: "apply_filters (\<lambda>pat. None) four_rabbits
        (no_criteria\<lparr>alt_min_sel := Some 80, alt_max_sel := Some 500\<rparr>) = Inr w"
    and "rows w = filter (\<lambda>r. \<exists>x. Altitud r = Some x \<and> real_of_int 80 \<le> x \<and> x \<le> real_of_int 500)
                    (rows four_rabbits)"
    and "columns w = columns four_rabbits"
    by (metis (no_types, lifting))
  then have w_eq: "w = four_rabbits\<lparr>rows := [rabbit_b, rabbit_d]\<rparr>"
    using alts by simp
  from one_end ends(5) same(3)
  have idle: "apply_filters (\<lambda>pat. None) four_rabbits (no_criteria\<lparr>end_dt := Some 1590969600000000000\<rparr>)
      = apply_filters (\<lambda>pat. None) four_rabbits no_criteria"
    by (metis (no_types, lifting))
  from by_date hf
  have step_dates: "rows (fecha_step (has_fecha four_rabbits) (Some 1577836800000000000)
             (Some 1590969600000000000) four_rabbits) = [rabbit_a, rabbit_d]"
    by (simp only: dates simp_thms)
  from by_altitude ha
  have step_alts: "rows (alt_step (has_alt four_rabbits) (Some 80) (Some 500) four_rabbits)
             = [rabbit_b, rabbit_d]"
    by (simp only: alts simp_thms)
  from without na
  have absent: "alt_step (has_alt bare_rabbits) (Some 80) (Some 500) bare_rabbits = bare_rabbits"
    and absent_view: "apply_filters (\<lambda>pat. None) bare_rabbits x_criteria
       = apply_filters (\<lambda>pat. None) bare_rabbits (x_criteria\<lparr>alt_min_sel := None, alt_max_sel := None\<rparr>)"
    by blast+
  from hf ha na v w v_eq w_eq idle step_dates step_alts absent absent_view show ?thesis
    by simp
qed

theorem filtered_view_monotone_witness:
  "apply_filters (\<lambda>pat. None) four_rabbits x_criteria = Inr (four_rabbits\<lparr>rows := [rabbit_a]\<rparr>)
   \<and> (\<exists>v'. apply_filters (\<lambda>pat. None) four_rabbits
              (x_criteria\<lparr>selected_species := [''Sylvilagus X'', ''Sylvilagus Y'']\<rparr>) = Inr v'
           \<and> length (rows (four_rabbits\<lparr>rows := [rabbit_a]\<rparr>)) \<le> length (rows v'))
   \<and> (\<exists>v'. apply_filters (\<lambda>pat. None) four_rabbits
              (x_criteria\<lparr>start_dt := Some 1590969600000000000, end_dt := Some 1609459200000000000\<rparr>) = Inr v'
           \<and> length (rows v') \<le> length (rows (four_rabbits\<lparr>rows := [rabbit_a]\<rparr>)))
   \<and> (\<exists>v'. apply_filters (\<lambda>pat. None) four_rabbits
              (x_criteria\<lparr>alt_min_sel := Some 100, alt_max_sel := Some 1000\<rparr>) = Inr v'
           \<and> length (rows v') \<le> length (rows (four_rabbits\<lparr>rows := [rabbit_a]\<rparr>)))"
proof -
  have h: "apply_filters (\<lambda>pat. None) four_rabbits x_criteria = Inr (four_rabbits\<lparr>rows := [rabbit_a]\<rparr>)"
    by code_simp
  have more: "selected_species x_criteria \<noteq> []
      \<and> set [''Sylvilagus X'', ''Sylvilagus Y''] = insert ''Sylvilagus Y'' (set (selected_species x_criteria))"
    by (auto simp: x_criteria_def)
  have dates: "start_dt x_criteria = Some 1577836800000000000 \<and> end_dt x_criteria = Some 1609459200000000000
      \<and> (1577836800000000000 :: int) \<le> 1590969600000000000 \<and> (1609459200000000000 :: int) \<le> 1609459200000000000"
    by (simp add: x_criteria_def)
  have alts: "alt_min_sel x_criteria = Some 0 \<and> alt_max_sel x_criteria = Some 2000
      \<and> (0 :: int) \<le> 100 \<and> (1000 :: int) \<le> 2000"
    by (simp add: x_criteria_def)
  from filtered_view_monotone
         [OF h, where sel' = "[''Sylvilagus X'', ''Sylvilagus Y'']" and x = "''Sylvilagus Y''"
            and s = 1577836800000000000 and e = 1609459200000000000
            and s' = 1590969600000000000 and e' = 1609459200000000000
            and a = 0 and b = 2000 and a' = 100 and b' = 1000]
       more dates alts h
  show ?thesis by blast
qed

theorem default_altitude_range_drops_top_record_witness:
  "rabbit_a \<in> set (rows four_rabbits) \<and> ''Altitud'' \<in> set (columns four_rabbits)
   \<and> Altitud rabbit_a = Some 1234.5
   \<and> series_max (map Altitud (rows four_rabbits)) = Some 1234.5
   \<and> real_of_int (py_int 1234.5) < 1234.5
   \<and> pair_of (alt_min_sel default_criteria) (alt_max_sel default_criteria)
       = alt_filter (init_session four_rabbits fresh_session)
   \<and> Some (lugar_text default_criteria) = lugar_filter (init_session four_rabbits fresh_session)
   \<and> alt_filter (init_session four_rabbits fresh_session) = Some (80, 1234)
   \<and> alt_filter (reset_filters four_rabbits fresh_session) = Some (80, 1234)
   \<and> species_filter (init_session four_rabbits fresh_session) = Some (selected_species default_criteria)
   \<and> fecha_filter (init_session four_rabbits fresh_session)
       = pair_of (start_dt default_criteria) (end_dt default_criteria)
   \<and> (\<exists>v. apply_filters (\<lambda>pat. None) four_rabbits default_criteria = Inr v
          \<and> rabbit_a \<notin> set (rows v)
          \<and> set (rows v) \<subset> set (rows four_rabbits) \<and> length (rows v) < length (rows four_rabbits))
   \<and> apply_filters (\<lambda>pat. None) four_rabbits default_criteria = Inr (four_rabbits\<lparr>rows := [rabbit_d]\<rparr>)"
proof -
  have h1: "rabbit_a \<in> set (rows four_rabbits)" and h2: "''Altitud'' \<in> set (columns four_rabbits)"
    by (simp_all add: four_rabbits_def)
  have h3: "Altitud rabbit_a = Some 1234.5"
    by (simp add: rabbit_a_def rabbit_def)
  have h4: "series_max (map Altitud (rows four_rabbits)) = Some 1234.5"
    by code_simp
  have h5: "real_of_int (py_int 1234.5) < 1234.5"
    by code_simp
  have h6: "pair_of (alt_min_sel default_criteria) (alt_max_sel default_criteria)
       = alt_filter (init_session four_rabbits fresh_session)"
    by code_simp
  have h7: "Some (lugar_text default_criteria) = lugar_filter (init_session four_rabbits fresh_session)"
    by code_simp
  have e1: "alt_filter (init_session four_rabbits fresh_session) = Some (80, 1234)"
    by code_simp
  have e2: "alt_filter (reset_filters four_rabbits fresh_session) = Some (80, 1234)"
    by code_simp
  have e3: "apply_filters (\<lambda>pat. None) four_rabbits default_criteria = Inr (four_rabbits\<lparr>rows := [rabbit_d]\<rparr>)"
    by code_simp
  have e4: "species_filter (init_session four_rabbits fresh_session) = Some (selected_species default_criteria)"
    by code_simp
  have e5: "fecha_filter (init_session four_rabbits fresh_session)
       = pair_of (start_dt default_criteria) (end_dt default_criteria)"
    by code_simp
  from default_altitude_range_drops_top_record
         [OF h1 h2 h3 h4 h5 h6 h7, where re_compile = "\<lambda>pat. None"]
       h1 h2 h3 h4 h5 h6 h7 e1 e2 e3 e4 e5
  show ?thesis by blast
qed

end
